theory Spec2Isabelle
  imports Main "HOL-Library.Word" "HOL-Library.Signed_Division" "HOL-Library.Multiset"
begin

section \<open>Go's numeric types\<close>

text \<open>
  The calculator computes on \<open>int64\<close> (resource quantities, price units) and on
  \<open>float64\<close> (prices and costs). \<open>int64\<close> is a 64-bit word read in two's complement.
\<close>

type_synonym int64 = "64 word"

text \<open>
  A \<open>float64\<close> is an IEEE 754 binary64 value: \<open>Fin m e\<close> stands for the number
  \<open>m * 2 ^ e\<close>, and there are the two infinities and NaN. Every arithmetic operation
  computes the exact result on integers and rounds it once, to nearest with ties to even,
  to 53 significant bits (fewer below \<open>2 ^ (- 1022)\<close>, where the exponent stops at
  \<open>- 1074\<close>), and to an infinity from \<open>2 ^ 1024\<close> on. Results are kept in the form with
  an odd significand (\<open>Fin 0 0\<close> for zero), so equal finite results are equal terms.
  The sign of zero is not represented: the program never divides by a negative zero (its
  divisors are the constants 1000 and 1000000000 and \<open>float64(mCPU)\<close>) and never prints
  one apart.
\<close>

datatype float64 = Fin int int | PInf | NInf | NaN

text \<open>The number of binary digits of a positive integer (0 for the others).\<close>

function bitlen :: "int \<Rightarrow> int" where
  "bitlen a = (if a \<le> 0 then 0 else 1 + bitlen (a div 2))"
  by pat_completeness auto
termination
  by (relation "measure nat") auto

declare bitlen.simps [simp del]

text \<open>The form with an odd significand.\<close>

function trim :: "int \<Rightarrow> int \<Rightarrow> float64" where
  "trim m e = (if m = 0 then Fin 0 0 else if even m then trim (m div 2) (e + 1) else Fin m e)"
  by pat_completeness auto
termination
  by (relation "measure (\<lambda>(m, e). nat \<bar>m\<bar>)") auto

declare trim.simps [simp del]

text \<open>\<open>round_even a s\<close> is \<open>a / 2 ^ s\<close> rounded to the nearest integer, ties to even,
  for \<open>a \<ge> 0\<close>.\<close>

definition round_even :: "int \<Rightarrow> nat \<Rightarrow> int" where
  "round_even a s =
     (if s = 0 then a
      else let q = a div 2 ^ s; r = a mod 2 ^ s; h = 2 ^ (s - 1)
           in if h < r \<or> (r = h \<and> odd q) then q + 1 else q)"

text \<open>\<open>rnd m e\<close> is the \<open>float64\<close> nearest to the exact number \<open>m * 2 ^ e\<close>.\<close>

definition rnd :: "int \<Rightarrow> int \<Rightarrow> float64" where
  "rnd m e =
     (let a = \<bar>m\<bar>;
          s = nat (max (bitlen a - 53) (- 1074 - e));
          q = round_even a s;
          e' = e + int s
      in if q = 0 then Fin 0 0
         else if 1024 < bitlen q + e' then (if m < 0 then NInf else PInf)
         else trim (sgn m * q) e')"

fun f_add :: "float64 \<Rightarrow> float64 \<Rightarrow> float64" where
  "f_add (Fin m1 e1) (Fin m2 e2) =
     (let e = min e1 e2 in rnd (m1 * 2 ^ nat (e1 - e) + m2 * 2 ^ nat (e2 - e)) e)"
| "f_add NaN _ = NaN"
| "f_add _ NaN = NaN"
| "f_add PInf NInf = NaN"
| "f_add NInf PInf = NaN"
| "f_add PInf _ = PInf"
| "f_add _ PInf = PInf"
| "f_add NInf _ = NInf"
| "f_add _ NInf = NInf"

fun f_neg :: "float64 \<Rightarrow> float64" where
  "f_neg (Fin m e) = Fin (- m) e"
| "f_neg PInf = NInf"
| "f_neg NInf = PInf"
| "f_neg NaN = NaN"

definition f_sub :: "float64 \<Rightarrow> float64 \<Rightarrow> float64" where
  "f_sub x y = f_add x (f_neg y)"

fun f_mul :: "float64 \<Rightarrow> float64 \<Rightarrow> float64" where
  "f_mul (Fin m1 e1) (Fin m2 e2) = rnd (m1 * m2) (e1 + e2)"
| "f_mul NaN _ = NaN"
| "f_mul _ NaN = NaN"
| "f_mul (Fin m e) PInf = (if m = 0 then NaN else if 0 < m then PInf else NInf)"
| "f_mul (Fin m e) NInf = (if m = 0 then NaN else if 0 < m then NInf else PInf)"
| "f_mul PInf (Fin m e) = (if m = 0 then NaN else if 0 < m then PInf else NInf)"
| "f_mul NInf (Fin m e) = (if m = 0 then NaN else if 0 < m then NInf else PInf)"
| "f_mul PInf PInf = PInf"
| "f_mul NInf NInf = PInf"
| "f_mul PInf NInf = NInf"
| "f_mul NInf PInf = NInf"

text \<open>
  Division: the quotient of the significands is taken with at least 55 binary digits and a
  last digit that records a non-zero remainder, so the one rounding of \<open>rnd\<close> is the
  rounding of the exact quotient. Go does not panic on a \<open>float64\<close> division by zero:
  the result is an infinity, or NaN for \<open>0 / 0\<close>.
\<close>

fun f_div :: "float64 \<Rightarrow> float64 \<Rightarrow> float64" where
  "f_div (Fin m1 e1) (Fin m2 e2) =
     (if m2 = 0 then (if m1 = 0 then NaN else if 0 < m1 then PInf else NInf)
      else let k = nat (55 + bitlen \<bar>m2\<bar> - bitlen \<bar>m1\<bar>);
               n = \<bar>m1\<bar> * 2 ^ k;
               q = n div \<bar>m2\<bar>;
               sticky = (if n mod \<bar>m2\<bar> = 0 then 0 else 1)
           in rnd (sgn m1 * sgn m2 * (2 * q + sticky)) (e1 - e2 - int k - 1))"
| "f_div NaN _ = NaN"
| "f_div _ NaN = NaN"
| "f_div (Fin m e) _ = Fin 0 0"
| "f_div PInf (Fin m e) = (if m < 0 then NInf else PInf)"
| "f_div NInf (Fin m e) = (if m < 0 then PInf else NInf)"
| "f_div _ _ = NaN"

text \<open>The sign of \<open>m1 * 2 ^ e1 - m2 * 2 ^ e2\<close>.\<close>

definition diff_sign :: "int \<Rightarrow> int \<Rightarrow> int \<Rightarrow> int \<Rightarrow> int" where
  "diff_sign m1 e1 m2 e2 =
     (let e = min e1 e2 in sgn (m1 * 2 ^ nat (e1 - e) - m2 * 2 ^ nat (e2 - e)))"

text \<open>Go's \<open>==\<close>, \<open>!=\<close>, \<open><\<close> and \<open><=\<close> on \<open>float64\<close>: every comparison with NaN
  is false, but \<open>!=\<close>, which is the negation of \<open>==\<close>. \<open>x >= y\<close> is \<open>f_le y x\<close>.\<close>

fun f_eq :: "float64 \<Rightarrow> float64 \<Rightarrow> bool" where
  "f_eq (Fin m1 e1) (Fin m2 e2) = (diff_sign m1 e1 m2 e2 = 0)"
| "f_eq PInf PInf = True"
| "f_eq NInf NInf = True"
| "f_eq _ _ = False"

definition f_ne :: "float64 \<Rightarrow> float64 \<Rightarrow> bool" where
  "f_ne x y = (\<not> f_eq x y)"

fun f_lt :: "float64 \<Rightarrow> float64 \<Rightarrow> bool" where
  "f_lt (Fin m1 e1) (Fin m2 e2) = (diff_sign m1 e1 m2 e2 < 0)"
| "f_lt NaN _ = False"
| "f_lt _ NaN = False"
| "f_lt PInf _ = False"
| "f_lt _ NInf = False"
| "f_lt _ _ = True"

definition f_le :: "float64 \<Rightarrow> float64 \<Rightarrow> bool" where
  "f_le x y = (f_lt x y \<or> f_eq x y)"

text \<open>\<open>math.Ceil\<close>: the least integer not below the argument; infinities and NaN are
  returned as they are.\<close>

fun f_ceil :: "float64 \<Rightarrow> float64" where
  "f_ceil (Fin m e) = (if 0 \<le> e then Fin m e else rnd (- ((- m) div 2 ^ nat (- e))) 0)"
| "f_ceil x = x"

text \<open>The conversion \<open>float64(i)\<close> of an \<open>int64\<close>, and the \<open>float64\<close> of an untyped
  integer constant (1000, 4, 8) and of a decimal constant \<open>n / d\<close> (0.1 is \<open>f_dec 1 10\<close>):
  the nearest \<open>float64\<close>.\<close>

definition float64_of_int64 :: "int64 \<Rightarrow> float64" where
  "float64_of_int64 w = rnd (sint w) 0"

definition f_int :: "int \<Rightarrow> float64" where
  "f_int i = rnd i 0"

definition f_dec :: "int \<Rightarrow> int \<Rightarrow> float64" where
  "f_dec n d = f_div (rnd n 0) (rnd d 0)"

text \<open>
  The conversion \<open>int64(x)\<close> truncates towards zero. Go leaves the result open when the
  value does not fit (or is NaN); the amd64 instruction gives the least \<open>int64\<close>, which is
  what the model returns there.
\<close>

fun int64_of_float64 :: "float64 \<Rightarrow> int64" where
  "int64_of_float64 (Fin m e) =
     (let t = (if 0 \<le> e then m * 2 ^ nat e else sgn m * (\<bar>m\<bar> div 2 ^ nat (- e)))
      in if - (2 ^ 63) \<le> t \<and> t < 2 ^ 63 then word_of_int t else word_of_int (- (2 ^ 63)))"
| "int64_of_float64 x = word_of_int (- (2 ^ 63))"



section \<open>The data model\<close>

text \<open>
  Modelled from the spec: the declarations of \<open>ComputeClass\<close> with its four constants,
  of \<open>Node\<close> and of \<open>Workload\<close> are in a file of the repository that is not among the
  sources. The spec gives the compute class as a closed enumeration of Regular, Balanced,
  ScaleOut and ScaleOutArm; the fields of \<open>Node\<close> and \<open>Workload\<close> are the ones that
  \<open>PopulateWorkloads\<close> and \<open>DisplayWorkloadTable\<close> read and write. A node's \<open>Name\<close> and
  \<open>Cost\<close> are written \<open>NodeName\<close> and \<open>NodeCost\<close> here, apart from the workload's.
\<close>

datatype ComputeClass =
    COMPUTE_CLASS_REGULAR
  | COMPUTE_CLASS_BALANCED
  | COMPUTE_CLASS_SCALEOUT
  | COMPUTE_CLASS_SCALEOUT_ARM

record Workload =
  Name :: string
  Containers :: int
  Node_name :: string
  Cpu :: int64
  Memory :: int64
  Storage :: int64
  Cost :: float64
  Compute_class :: ComputeClass

record Node =
  NodeName :: string
  InstanceType :: string
  Region :: string
  Spot :: bool
  Workloads :: "Workload list"
  NodeCost :: float64

record ap_pricing =
  region :: string
  storage_price :: float64
  cpu_price :: float64
  memory_price :: float64
  cpu_balanced_price :: float64
  memory_balanced_price :: float64
  cpu_scaleout_price :: float64
  memory_scaleout_price :: float64
  cpu_arm_scaleout_price :: float64
  memory_arm_scaleout_price :: float64
  spot_cpu_price :: float64
  spot_memory_price :: float64
  spot_cpu_balanced_price :: float64
  spot_memory_balanced_price :: float64
  spot_cpu_scaleout_price :: float64
  spot_memory_scaleout_price :: float64
  spot_arm_cpu_scaleout_price :: float64
  spot_arm_memory_scaleout_price :: float64

text \<open>The constants of \<open>main.go\<close>.\<close>

definition CLUSTER_FEE :: float64 where
  "CLUSTER_FEE = f_dec 1 10"


definition ONE_YEAR_DISCOUNT :: float64 where
  "ONE_YEAR_DISCOUNT = f_dec 8 10"

definition THREE_YEAR_DISCOUNT :: float64 where
  "THREE_YEAR_DISCOUNT = f_dec 55 100"

text \<open>What \<open>log.Printf\<close> writes: the three warnings of the classifier and the pricing
  engine, each with the string it formats.\<close>

datatype log_line =
    ArmOutOfRange string
  | NoMatchingClass string
  | ArmPricingUnavailable string


section \<open>The lower limits, the compute class and the price of a workload\<close>

definition ValidateLowerLimits :: "int64 \<Rightarrow> int64 \<Rightarrow> int64 \<Rightarrow> int64 \<times> int64 \<times> int64" where
  "ValidateLowerLimits mCPU memory storage =
     (let mCPU = (if mCPU <s 250 then 250 else mCPU);
          memory = (if memory <s 500 then 500 else memory);
          storage = (if storage <s 10 then 10 else storage)
      in (mCPU, memory, storage))"

text \<open>\<open>ratio := math.Ceil(float64(memory) / float64(mCPU))\<close>.\<close>

definition ratio_of :: "int64 \<Rightarrow> int64 \<Rightarrow> float64" where
  "ratio_of mCPU memory = f_ceil (f_div (float64_of_int64 memory) (float64_of_int64 mCPU))"

definition DecideComputeClass ::
    "string \<Rightarrow> int64 \<Rightarrow> int64 \<Rightarrow> bool \<Rightarrow> ComputeClass \<times> log_line list" where
  "DecideComputeClass workload mCPU memory arm64 =
     (let ratio = ratio_of mCPU memory in
      if arm64 then
        (COMPUTE_CLASS_SCALEOUT_ARM,
         if f_ne ratio (f_int 4) \<or> 43000 <s mCPU \<or> 172000 <s memory
         then [ArmOutOfRange workload] else [])
      else if f_le (f_int 1) ratio \<and> f_le ratio (f_dec 65 10)
              \<and> mCPU \<le>s 30000 \<and> memory \<le>s 110000
      then (COMPUTE_CLASS_REGULAR, [])
      else if f_eq ratio (f_int 4) \<and> mCPU \<le>s 54000 \<and> memory \<le>s 216000
      then (COMPUTE_CLASS_SCALEOUT, [])
      else if f_le (f_int 1) ratio \<and> f_le ratio (f_int 8)
              \<and> (30000 <s mCPU \<or> 110000 <s memory)
      then (COMPUTE_CLASS_BALANCED, [])
      else (COMPUTE_CLASS_REGULAR, [NoMatchingClass workload]))"

text \<open>\<open>price * float64(quantity) / 1000\<close>, the term that \<open>CalculatePricing\<close> writes for
  each of the three resources.\<close>

definition per_thousand :: "float64 \<Rightarrow> int64 \<Rightarrow> float64" where
  "per_thousand price quantity = f_div (f_mul price (float64_of_int64 quantity)) (f_int 1000)"

definition CalculatePricing ::
    "int64 \<Rightarrow> int64 \<Rightarrow> int64 \<Rightarrow> ap_pricing \<Rightarrow> ComputeClass \<Rightarrow> bool \<Rightarrow> float64 \<times> log_line list" where
  "CalculatePricing cpu_m memory_m storage_m pricing class spot =
     (if spot then
        (case class of
           COMPUTE_CLASS_BALANCED \<Rightarrow>
             (f_add (f_add (per_thousand (spot_cpu_price pricing) cpu_m)
                           (per_thousand (spot_memory_price pricing) memory_m))
                    (per_thousand (storage_price pricing) storage_m), [])
         | COMPUTE_CLASS_SCALEOUT \<Rightarrow>
             (f_add (f_add (per_thousand (spot_cpu_scaleout_price pricing) cpu_m)
                           (per_thousand (spot_memory_scaleout_price pricing) memory_m))
                    (per_thousand (storage_price pricing) storage_m), [])
         | COMPUTE_CLASS_SCALEOUT_ARM \<Rightarrow>
             (f_add (f_add (per_thousand (spot_arm_cpu_scaleout_price pricing) cpu_m)
                           (per_thousand (spot_arm_memory_scaleout_price pricing) memory_m))
                    (per_thousand (storage_price pricing) storage_m),
              if f_eq (spot_arm_cpu_scaleout_price pricing) (f_int 0)
                 \<or> f_eq (spot_arm_memory_scaleout_price pricing) (f_int 0)
              then [ArmPricingUnavailable (region pricing)] else [])
         | _ \<Rightarrow>
             (f_add (f_add (per_thousand (spot_cpu_price pricing) cpu_m)
                           (per_thousand (spot_memory_price pricing) memory_m))
                    (per_thousand (storage_price pricing) storage_m), []))
      else
        (case class of
           COMPUTE_CLASS_BALANCED \<Rightarrow>
             (f_add (f_add (per_thousand (cpu_balanced_price pricing) cpu_m)
                           (per_thousand (memory_balanced_price pricing) memory_m))
                    (per_thousand (storage_price pricing) storage_m), [])
         | COMPUTE_CLASS_SCALEOUT \<Rightarrow>
             (f_add (f_add (per_thousand (cpu_scaleout_price pricing) cpu_m)
                           (per_thousand (memory_scaleout_price pricing) memory_m))
                    (per_thousand (storage_price pricing) storage_m), [])
         | COMPUTE_CLASS_SCALEOUT_ARM \<Rightarrow>
             (f_add (f_add (per_thousand (cpu_arm_scaleout_price pricing) cpu_m)
                           (per_thousand (memory_arm_scaleout_price pricing) memory_m))
                    (per_thousand (storage_price pricing) storage_m),
              if f_eq (cpu_arm_scaleout_price pricing) (f_int 0)
                 \<or> f_eq (memory_arm_scaleout_price pricing) (f_int 0)
              then [ArmPricingUnavailable (region pricing)] else [])
         | _ \<Rightarrow>
             (f_add (f_add (per_thousand (cpu_price pricing) cpu_m)
                           (per_thousand (memory_price pricing) memory_m))
                    (per_thousand (storage_price pricing) storage_m), [])))"


section \<open>The price catalogue\<close>

text \<open>
  \<open>GetAutopilotPricing\<close> reads a list of SKUs from the Cloud Billing service. The types of
  that client library are not part of the repository; these records hold the fields the
  function reads. A pointer is an \<open>option\<close> (\<open>None\<close> is \<open>nil\<close>), and so is an element
  of a slice of pointers.
\<close>

record money =
  Units :: int64
  Nanos :: int64

record tier_rate =
  UnitPrice :: "money option"

record pricing_expression =
  DisplayQuantity :: float64
  TieredRates :: "tier_rate option list"

record pricing_info =
  PricingExpression :: "pricing_expression option"

record sku =
  ServiceRegions :: "string list"
  Description :: string
  PricingInfo :: "pricing_info option list"

text \<open>The two calls to the service: the error of \<open>cloudbilling.NewService\<close>, if any, and
  the error or the SKUs of \<open>Skus.List(...).Do()\<close>.\<close>

record billing_service =
  NewService_error :: "string option"
  Skus_List :: "string + sku list"

text \<open>
  \<open>sku.PricingInfo[0].PricingExpression.TieredRates[0].UnitPrice\<close>: an index out of range
  or a nil pointer on the way panics, which is \<open>None\<close>.
\<close>

definition first_unit_price :: "sku \<Rightarrow> (pricing_expression \<times> money) option" where
  "first_unit_price s =
     (case PricingInfo s of
        Some info # _ \<Rightarrow>
          (case PricingExpression info of
             Some expr \<Rightarrow>
               (case TieredRates expr of
                  Some rate # _ \<Rightarrow>
                    (case UnitPrice rate of
                       Some unit \<Rightarrow> Some (expr, unit)
                     | None \<Rightarrow> None)
                | _ \<Rightarrow> None)
           | None \<Rightarrow> None)
      | _ \<Rightarrow> None)"

definition sku_price :: "pricing_expression \<Rightarrow> money \<Rightarrow> float64" where
  "sku_price expr unit =
     (let decimal = Units unit * 1000000000;
          mantissa = Nanos unit * int64_of_float64 (DisplayQuantity expr)
      in f_div (float64_of_int64 (decimal + mantissa)) (f_int 1000000000))"

text \<open>The \<open>switch sku.Description\<close>: the first case equal to the description is taken, and
  no case is the default. The Go variable \<open>region\<close> is written \<open>reg\<close>, apart from the
  field of \<open>ap_pricing\<close>.\<close>

definition assign_price :: "string \<Rightarrow> string \<Rightarrow> float64 \<Rightarrow> ap_pricing \<Rightarrow> ap_pricing" where
  "assign_price reg description price pricing =
     (if description = ''Autopilot Pod Ephemeral Storage Requests ('' @ reg @ '')''
      then pricing\<lparr>storage_price := price\<rparr>
      else if description = ''Autopilot Pod Memory Requests ('' @ reg @ '')''
      then pricing\<lparr>memory_price := price\<rparr>
      else if description = ''Autopilot Pod mCPU Requests ('' @ reg @ '')''
      then pricing\<lparr>cpu_price := price\<rparr>
      else if description = ''Autopilot Balanced Pod Memory Requests ('' @ reg @ '')''
      then pricing\<lparr>memory_balanced_price := price\<rparr>
      else if description = ''Autopilot Balanced Pod mCPU Requests ('' @ reg @ '')''
      then pricing\<lparr>cpu_balanced_price := price\<rparr>
      else if description = ''Autopilot Scale-Out x86 Pod Memory Requests ('' @ reg @ '')''
      then pricing\<lparr>memory_scaleout_price := price\<rparr>
      else if description = ''Autopilot Scale-Out x86 Pod mCPU Requests ('' @ reg @ '')''
      then pricing\<lparr>cpu_scaleout_price := price\<rparr>
      else if description = ''Autopilot Scale-Out Arm Spot Pod Memory Requests ('' @ reg @ '')''
      then pricing\<lparr>memory_arm_scaleout_price := price\<rparr>
      else if description = ''Autopilot Scale-Out Arm Spot Pod mCPU Requests ('' @ reg @ '')''
      then pricing\<lparr>cpu_arm_scaleout_price := price\<rparr>
      else if description = ''Autopilot Spot Pod Memory Requests ('' @ reg @ '')''
      then pricing\<lparr>spot_memory_price := price\<rparr>
      else if description = ''Autopilot Spot Pod mCPU Requests ('' @ reg @ '')''
      then pricing\<lparr>spot_cpu_price := price\<rparr>
      else if description = ''Autopilot Balanced Spot Pod Memory Requests ('' @ reg @ '')''
      then pricing\<lparr>spot_memory_balanced_price := price\<rparr>
      else if description = ''Autopilot Balanced Spot Pod mCPU Requests ('' @ reg @ '')''
      then pricing\<lparr>spot_cpu_balanced_price := price\<rparr>
      else if description = ''Autopilot Scale-Out x86 Spot Pod Memory Requests ('' @ reg @ '')''
      then pricing\<lparr>spot_memory_scaleout_price := price\<rparr>
      else if description = ''Autopilot Scale-Out x86 Spot Pod mCPU Requests ('' @ reg @ '')''
      then pricing\<lparr>spot_cpu_scaleout_price := price\<rparr>
      else if description = ''Autopilot Scale-Out Arm Spot Pod Memory Requests ('' @ reg @ '')''
      then pricing\<lparr>spot_arm_memory_scaleout_price := price\<rparr>
      else if description = ''Autopilot Scale-Out Arm Spot Pod mCPU Requests ('' @ reg @ '')''
      then pricing\<lparr>spot_arm_cpu_scaleout_price := price\<rparr>
      else pricing)"

text \<open>The loop over \<open>pricingInfo.Skus\<close>; \<open>None\<close> when an iteration panics.\<close>

fun price_skus :: "string \<Rightarrow> sku list \<Rightarrow> ap_pricing \<Rightarrow> ap_pricing option" where
  "price_skus reg [] pricing = Some pricing"
| "price_skus reg (s # skus) pricing =
     (if reg \<notin> set (ServiceRegions s) then price_skus reg skus pricing
      else case first_unit_price s of
             None \<Rightarrow> None
           | Some (expr, unit) \<Rightarrow>
               price_skus reg skus
                 (assign_price reg (Description s) (sku_price expr unit) pricing))"

text \<open>The zero value \<open>ap_pricing{}\<close>, returned beside an error.\<close>

definition zero_pricing :: "string \<Rightarrow> ap_pricing" where
  "zero_pricing r =
     \<lparr> region = r, storage_price = f_int 0,
       cpu_price = f_int 0, memory_price = f_int 0,
       cpu_balanced_price = f_int 0, memory_balanced_price = f_int 0,
       cpu_scaleout_price = f_int 0, memory_scaleout_price = f_int 0,
       cpu_arm_scaleout_price = f_int 0, memory_arm_scaleout_price = f_int 0,
       spot_cpu_price = f_int 0, spot_memory_price = f_int 0,
       spot_cpu_balanced_price = f_int 0, spot_memory_balanced_price = f_int 0,
       spot_cpu_scaleout_price = f_int 0, spot_memory_scaleout_price = f_int 0,
       spot_arm_cpu_scaleout_price = f_int 0, spot_arm_memory_scaleout_price = f_int 0 \<rparr>"

text \<open>
  \<open>GetAutopilotPricing\<close> returns a pricing record and an error (\<open>None\<close> for \<open>nil\<close>);
  the outer \<open>None\<close> is a panic in the loop.
\<close>

definition GetAutopilotPricing ::
    "billing_service \<Rightarrow> string \<Rightarrow> (ap_pricing \<times> string option) option" where
  "GetAutopilotPricing service reg =
     (let pricing = zero_pricing reg in
      case NewService_error service of
        Some err \<Rightarrow>
          Some (zero_pricing [], Some (''unable to initialize cloud billing service: '' @ err))
      | None \<Rightarrow>
          (case Skus_List service of
             Inl err \<Rightarrow>
               Some (zero_pricing [], Some (''unable to fetch cloud billing prices: '' @ err))
           | Inr skus \<Rightarrow>
               (case price_skus reg skus pricing of
                  None \<Rightarrow> None
                | Some pricing' \<Rightarrow> Some (pricing', None))))"


section \<open>The workloads of the cluster\<close>













section \<open>The table of the workloads\<close>

text \<open>
  \<open>DisplayWorkloadTable\<close> ranges over the map of the nodes, in an order that Go leaves
  open: the argument here is the list of the nodes in the order of the iteration. A row
  holds the values before they are formatted; the three last rows of the table are the
  three totals.
\<close>

type_synonym row =
  "string \<times> string \<times> int \<times> bool \<times> int64 \<times> int64 \<times> int64 \<times> ComputeClass \<times> float64"

record workload_table =
  Rows :: "row list"
  TotalCostPerHour :: float64
  OneYearCommit :: float64
  ThreeYearCommit :: float64

fun add_workloads ::
    "Node \<Rightarrow> Workload list \<Rightarrow> float64 \<times> float64 \<times> row list \<Rightarrow> float64 \<times> float64 \<times> row list" where
  "add_workloads node [] acc = acc"
| "add_workloads node (workload # ws) (total_cost, total_cost_spot, rows) =
     add_workloads node ws
       (if Spot node then total_cost else f_add total_cost (Cost workload),
        if Spot node then f_add total_cost_spot (Cost workload) else total_cost_spot,
        rows @ [(NodeName node, Name workload, Containers workload, Spot node, Cpu workload,
                 Memory workload, Storage workload, Compute_class workload, Cost workload)])"

fun add_nodes ::
    "Node list \<Rightarrow> float64 \<times> float64 \<times> row list \<Rightarrow> float64 \<times> float64 \<times> row list" where
  "add_nodes [] acc = acc"
| "add_nodes (node # nodes) acc = add_nodes nodes (add_workloads node (Workloads node) acc)"

text \<open>The two accumulators \<open>total_cost\<close> and \<open>total_cost_spot\<close> and the rows after the
  loops: \<open>total_cost\<close> starts from the cluster fee.\<close>

definition cluster_totals :: "Node list \<Rightarrow> float64 \<times> float64 \<times> row list" where
  "cluster_totals nodes = add_nodes nodes (CLUSTER_FEE, f_int 0, [])"

definition DisplayWorkloadTable :: "Node list \<Rightarrow> workload_table" where
  "DisplayWorkloadTable nodes =
     (case cluster_totals nodes of
        (total_cost, total_cost_spot, rows) \<Rightarrow>
          \<lparr> Rows = rows,
            TotalCostPerHour = total_cost,
            OneYearCommit = f_add total_cost_spot (f_mul total_cost ONE_YEAR_DISCOUNT),
            ThreeYearCommit = f_add total_cost_spot (f_mul total_cost THREE_YEAR_DISCOUNT) \<rparr>)"


section \<open>The repository's tests\<close>

text \<open>\<open>main_test.go\<close>: the tolerance of its comparisons and the price table of
  \<open>TestCalculatePricing\<close> (a field the literal leaves out is zero).\<close>

fun f_abs :: "float64 \<Rightarrow> float64" where
  "f_abs (Fin m e) = Fin \<bar>m\<bar> e"
| "f_abs NInf = PInf"
| "f_abs x = x"

definition float64EqualityThreshold :: float64 where
  "float64EqualityThreshold = f_dec 1 1000000000"

definition almostEqual :: "float64 \<Rightarrow> float64 \<Rightarrow> bool" where
  "almostEqual a b = f_le (f_abs (f_sub a b)) float64EqualityThreshold"

definition test_pricing :: ap_pricing where
  "test_pricing =
     \<lparr> region = ''test-region-1'',
       storage_price = f_dec 706 10000000,
       cpu_price = f_dec 573 10000,
       memory_price = f_dec 63421 10000000,
       cpu_balanced_price = f_dec 831 10000,
       memory_balanced_price = f_dec 91933 10000000,
       cpu_scaleout_price = f_dec 722 10000,
       memory_scaleout_price = f_dec 79911 10000000,
       cpu_arm_scaleout_price = f_int 0,
       memory_arm_scaleout_price = f_int 0,
       spot_cpu_price = f_dec 172 10000,
       spot_memory_price = f_dec 19026 10000000,
       spot_cpu_balanced_price = f_dec 249 10000,
       spot_memory_balanced_price = f_dec 2758 1000000,
       spot_cpu_scaleout_price = f_dec 217 10000,
       spot_memory_scaleout_price = f_dec 23973 10000000,
       spot_arm_cpu_scaleout_price = f_int 0,
       spot_arm_memory_scaleout_price = f_int 0 \<rparr>"


section \<open>Example inputs\<close>

text \<open>A SKU of the catalogue with the description that the \<open>switch\<close> lists twice, priced
  at 0.028, and a billing service that returns this SKU alone.\<close>

definition example_arm_sku :: sku where
  "example_arm_sku =
     \<lparr> ServiceRegions = [''us-central1''],
       Description = ''Autopilot Scale-Out Arm Spot Pod mCPU Requests (us-central1)'',
       PricingInfo =
         [Some \<lparr> PricingExpression =
                   Some \<lparr> DisplayQuantity = f_int 1,
                          TieredRates =
                            [Some \<lparr> UnitPrice = Some \<lparr> Units = 0, Nanos = 28000000 \<rparr> \<rparr>] \<rparr> \<rparr>] \<rparr>"

definition example_service :: billing_service where
  "example_service = \<lparr> NewService_error = None, Skus_List = Inr [example_arm_sku] \<rparr>"

text \<open>A cluster of one spot node that hosts one workload of cost 1.\<close>

definition spot_workload :: Workload where
  "spot_workload =
     \<lparr> Name = ''batch-job'', Containers = 1, Node_name = ''spot-node'',
       Cpu = 250, Memory = 500, Storage = 10, Cost = f_int 1,
       Compute_class = COMPUTE_CLASS_REGULAR \<rparr>"

definition spot_cluster :: "Node list" where
  "spot_cluster =
     [\<lparr> NodeName = ''spot-node'', InstanceType = ''e2-standard-4'', Region = ''europe-west1'',
        Spot = True, Workloads = [spot_workload], NodeCost = f_int 1 \<rparr>]"











section \<open>Facts about the numeric model\<close>

text \<open>The operations on values whose binary64 results are known: 0.1, 0.1 + 0.2 =
  0.30000000000000004, 0.1 * 0.8 = 0.08000000000000002, ties that round to the even
  neighbour, the least subnormal, the greatest finite number and the overflow above it,
  division by zero, and the ceiling.\<close>

lemma float64_known_values:
  "f_dec 1 10 = Fin 3602879701896397 (- 55)"
  "f_add (f_dec 1 10) (f_dec 2 10) = Fin 1351079888211149 (- 52)"
  "f_mul (f_dec 1 10) (f_dec 8 10) = Fin 1441151880758559 (- 54)"
  "f_dec 65 10 = Fin 13 (- 1)"
  "rnd (2 ^ 53 + 1) 0 = Fin 1 53"
  "rnd (2 ^ 53 + 3) 0 = Fin 2251799813685249 2"
  "rnd 3 (- 1075) = Fin 1 (- 1073)"
  "rnd 1 (- 1075) = Fin 0 0"
  "rnd (2 ^ 53 - 1) 971 = Fin 9007199254740991 971"
  "rnd (2 ^ 54 - 1) 970 = PInf"
  "f_div (f_int 1) (f_int 0) = PInf"
  "f_div (f_int 0) (f_int 0) = NaN"
  "f_ceil (f_dec 25 10) = f_int 3"
  "f_ceil (f_dec (- 25) 10) = f_int (- 2)"
  by code_simp+

text \<open>Addition is commutative (it is not associative: see the running total of a node).\<close>

lemma f_add_commute: "f_add x y = f_add y x"
  by (cases x; cases y) (simp_all add: Let_def min.commute add.commute)

lemma bitlen_nonneg: "0 \<le> bitlen a"
  by (induction a rule: bitlen.induct) (subst bitlen.simps, simp)

lemma bitlen_pos: "0 < a \<Longrightarrow> 0 < bitlen a"
  using bitlen_nonneg [of "a div 2"] by (subst bitlen.simps) simp

lemma bitlen_upper: "a < 2 ^ n \<Longrightarrow> bitlen a \<le> int n"
proof (induction n arbitrary: a)
  case 0
  then show ?case by (subst bitlen.simps) simp
next
  case (Suc n)
  have "a div 2 < 2 ^ n" using Suc.prems by simp
  then have "bitlen (a div 2) \<le> int n" by (rule Suc.IH)
  then show ?case by (subst bitlen.simps) simp
qed

lemma trim_shape: "\<exists>m' e'. trim m e = Fin m' e' \<and> (m' = 0 \<longleftrightarrow> m = 0)"
proof (induction m e rule: trim.induct)
  case (1 m e)
  show ?case
  proof (cases "m = 0")
    case True
    then show ?thesis by (subst trim.simps) simp
  next
    case False
    show ?thesis
    proof (cases "even m")
      case True
      with False have "m div 2 \<noteq> 0" by auto
      with "1.IH" [OF False True] False True show ?thesis
        by (subst trim.simps) simp
    next
      case odd: False
      with False show ?thesis by (subst trim.simps) simp
    qed
  qed
qed

lemma trim_not_special: "trim m e \<noteq> NaN" "trim m e \<noteq> PInf" "trim m e \<noteq> NInf"
  using trim_shape [of m e] by auto

lemma rnd_not_NaN: "rnd m e \<noteq> NaN"
  unfolding rnd_def Let_def by (simp add: trim_not_special)

lemma round_even_le:
  assumes "0 \<le> a"
  shows "round_even a s \<le> a"
proof (cases s)
  case 0
  then show ?thesis by (simp add: round_even_def)
next
  case (Suc n)
  define q where "q = a div 2 ^ s"
  define r where "r = a mod 2 ^ s"
  have q0: "0 \<le> q"
    unfolding q_def using assms by (simp add: pos_imp_zdiv_nonneg_iff)
  have r0: "0 \<le> r"
    unfolding r_def by simp
  have eq: "a = 2 ^ s * q + r"
    unfolding q_def r_def by simp
  have "(2::int) \<le> 2 ^ s"
    using Suc by simp
  then have "2 * q \<le> 2 ^ s * q"
    using q0 by (rule mult_right_mono)
  then have le: "2 * q + r \<le> a"
    using eq by linarith
  have c1: "q \<le> a"
    using le q0 r0 by linarith
  have h: "(1::int) \<le> 2 ^ (s - 1)"
    by simp
  have c2: "2 ^ (s - 1) \<le> r \<Longrightarrow> q + 1 \<le> a"
    using le q0 h by linarith
  show ?thesis
    unfolding round_even_def Let_def q_def [symmetric] r_def [symmetric]
    using Suc c1 c2 by auto
qed

lemma round_even_ge:
  assumes "0 \<le> a"
  shows "a div 2 ^ s \<le> round_even a s"
proof (cases s)
  case 0
  then show ?thesis by (simp add: round_even_def)
next
  case (Suc n)
  then show ?thesis by (simp add: round_even_def Let_def)
qed


lemma bitlen_lower: "0 < a \<Longrightarrow> 2 ^ nat (bitlen a - 1) \<le> a"
proof (induction a rule: bitlen.induct)
  case (1 a)
  show ?case
  proof (cases "a div 2 = 0")
    case True
    then have "bitlen (a div 2) = 0" by (subst bitlen.simps) simp
    then have "bitlen a = 1" using "1.prems" by (subst bitlen.simps) simp
    then show ?thesis using "1.prems" by simp
  next
    case False
    then have pos: "0 < a div 2" using "1.prems" by (simp add: pos_imp_zdiv_pos_iff)
    have ih: "2 ^ nat (bitlen (a div 2) - 1) \<le> a div 2"
      using "1.IH" pos "1.prems" by simp
    have b: "bitlen a = 1 + bitlen (a div 2)"
      using "1.prems" by (subst bitlen.simps) simp
    have "0 < bitlen (a div 2)" using pos by (rule bitlen_pos)
    then have "nat (bitlen a - 1) = Suc (nat (bitlen (a div 2) - 1))"
      using b by simp
    then have "(2::int) ^ nat (bitlen a - 1) = 2 * 2 ^ nat (bitlen (a div 2) - 1)"
      by simp
    also have "\<dots> \<le> 2 * (a div 2)" using ih by simp
    also have "\<dots> \<le> a" by simp
    finally show ?thesis .
  qed
qed

lemma rnd_int64_shape:
  assumes "\<bar>i\<bar> \<le> 2 ^ 63"
  shows "\<exists>m e. rnd i 0 = Fin m e \<and> (m = 0 \<longleftrightarrow> i = 0)"
proof (cases "i = 0")
  case True
  have "round_even 0 s = 0" for s by (simp add: round_even_def Let_def)
  then show ?thesis using True by (simp add: rnd_def Let_def)
next
  case False
  define a where "a = \<bar>i\<bar>"
  define s where "s = nat (max (bitlen a - 53) (- 1074 - 0))"
  define q where "q = round_even a s"
  have a0: "0 < a" using False by (simp add: a_def)
  have "a < 2 ^ 64" using assms by (simp add: a_def)
  then have bl: "bitlen a \<le> 64" using bitlen_upper [of a 64] by simp
  have bp: "0 < bitlen a" using a0 by (rule bitlen_pos)
  have s_le: "int s \<le> 11" using bl by (simp add: s_def)
  have s_lt: "s \<le> nat (bitlen a - 1)" using bp by (simp add: s_def)
  have "(2::int) ^ s \<le> 2 ^ nat (bitlen a - 1)"
    using s_lt by (intro power_increasing) auto
  also have "\<dots> \<le> a" using a0 by (rule bitlen_lower)
  finally have "1 \<le> a div 2 ^ s"
    by (simp add: pos_imp_zdiv_pos_iff Suc_le_eq int_one_le_iff_zero_less)
  moreover have "a div 2 ^ s \<le> q" unfolding q_def using a0 by (intro round_even_ge) simp
  ultimately have q1: "1 \<le> q" by linarith
  have "q \<le> a" unfolding q_def using a0 by (intro round_even_le) simp
  then have "q < 2 ^ 64" using \<open>a < 2 ^ 64\<close> by linarith
  then have "bitlen q \<le> 64" using bitlen_upper [of q 64] by simp
  then have no: "\<not> 1024 < bitlen q + (0 + int s)" using s_le by linarith
  have "rnd i 0 = trim (sgn i * q) (0 + int s)"
    unfolding rnd_def Let_def a_def [symmetric] s_def [symmetric] q_def [symmetric]
    using no q1 by simp
  moreover have "sgn i * q \<noteq> 0" using False q1 by (simp add: sgn_if)
  ultimately show ?thesis using trim_shape [of "sgn i * q" "0 + int s"] False by auto
qed

lemma float64_of_int64_shape:
  "\<exists>m e. float64_of_int64 w = Fin m e \<and> (m = 0 \<longleftrightarrow> sint w = 0)"
proof -
  have "- (2 ^ 63) \<le> sint w" "sint w < 2 ^ 63"
    using sint_ge [of w] sint_lt [of w] by simp_all
  then have "\<bar>sint w\<bar> \<le> 2 ^ 63" by linarith
  then show ?thesis unfolding float64_of_int64_def by (rule rnd_int64_shape)
qed

lemma f_ceil_not_NaN: "x \<noteq> NaN \<Longrightarrow> f_ceil x \<noteq> NaN"
  by (cases x) (simp_all add: rnd_not_NaN)

lemma ratio_of_not_NaN:
  assumes "sint mCPU \<noteq> 0"
  shows "ratio_of mCPU memory \<noteq> NaN"
proof -
  obtain m1 e1 where n: "float64_of_int64 memory = Fin m1 e1"
    using float64_of_int64_shape [of memory] by blast
  obtain m2 e2 where d: "float64_of_int64 mCPU = Fin m2 e2" "m2 \<noteq> 0"
    using float64_of_int64_shape [of mCPU] assms by blast
  have "f_div (Fin m1 e1) (Fin m2 e2) \<noteq> NaN"
    using d(2) by (simp add: Let_def rnd_not_NaN)
  then show ?thesis unfolding ratio_of_def n d(1) by (rule f_ceil_not_NaN)
qed

lemma rnd_zero: "rnd 0 e = Fin 0 0"
  by (simp add: rnd_def round_even_def Let_def)

lemma f_int_0: "f_int 0 = Fin 0 0"
  by (simp add: f_int_def rnd_zero)

lemma f_int_1000: "f_int 1000 = Fin 125 3"
  by code_simp

lemma per_thousand_zero: "per_thousand (Fin 0 0) q = Fin 0 0"
proof -
  obtain m e where "float64_of_int64 q = Fin m e"
    using float64_of_int64_shape [of q] by blast
  then show ?thesis
    by (simp add: per_thousand_def f_int_1000 rnd_zero)
qed

lemma f_add_zero_zero: "f_add (Fin 0 0) (Fin 0 0) = Fin 0 0"
  by (simp add: rnd_zero)


section \<open>The repository's tests, run on the model\<close>

text \<open>
  \<open>TestDecideComputeClass\<close> and \<open>TestCalculatePricing\<close> of \<open>main_test.go\<close>: the model
  computes, on the binary64 operations above, the classes the tests expect and prices
  within the tests' tolerance of the expected ones.
\<close>

lemma TestDecideComputeClass:
  "fst (DecideComputeClass ''test-pod'' 10000 10000 False) = COMPUTE_CLASS_REGULAR"
  "fst (DecideComputeClass ''test-pod'' 35000 100000 False) = COMPUTE_CLASS_BALANCED"
  "fst (DecideComputeClass ''test-pod'' 20000 80000 True) = COMPUTE_CLASS_SCALEOUT_ARM"
  by code_simp+

lemma TestCalculatePricing_1:
  "fst (DecideComputeClass ''test-pod'' 4000 16000 False) = COMPUTE_CLASS_REGULAR"
  "almostEqual (fst (CalculatePricing 4000 16000 10000 test_pricing COMPUTE_CLASS_REGULAR False))
      (f_dec 3313796 10000000)"
  by code_simp+

lemma TestCalculatePricing_2:
  "fst (DecideComputeClass ''test-pod'' 40000 80000 False) = COMPUTE_CLASS_BALANCED"
  "almostEqual (fst (CalculatePricing 40000 80000 10000 test_pricing COMPUTE_CLASS_BALANCED False))
      (f_dec 40601700 10000000)"
  by code_simp+

lemma TestCalculatePricing_3:
  "fst (DecideComputeClass ''test-pod'' 25000 100000 False) = COMPUTE_CLASS_REGULAR"
  "almostEqual (fst (CalculatePricing 25000 100000 10000 test_pricing COMPUTE_CLASS_REGULAR True))
      (f_dec 6209660 10000000)"
  by code_simp+


section \<open>The lower limits\<close>

text \<open>
  C6. For every triple, \<open>ValidateLowerLimits\<close> raises the components below their floors
  (250 mCPU, 500 MiB of memory, 10 MiB of storage) to the floors and returns the others
  as they are: each result is the greater of the input and its floor, as signed numbers.
  In particular (1000, 1000, 1000) is returned unchanged and (249, 499, 9) becomes
  (250, 500, 10), the two cases of \<open>TestValidateLowerLimits\<close>.
\<close>

theorem ValidateLowerLimits_floors:
  "(case ValidateLowerLimits mCPU memory storage of (c, m, s) \<Rightarrow>
      c = (if mCPU <s 250 then 250 else mCPU)
      \<and> m = (if memory <s 500 then 500 else memory)
      \<and> s = (if storage <s 10 then 10 else storage)
      \<and> sint c = max (sint mCPU) 250 \<and> sint m = max (sint memory) 500
      \<and> sint s = max (sint storage) 10)
   \<and> ValidateLowerLimits 1000 1000 1000 = (1000, 1000, 1000)
   \<and> ValidateLowerLimits 249 499 9 = (250, 500, 10)"
  by (simp add: ValidateLowerLimits_def word_sless_alt max_def)

section \<open>The compute class\<close>



text \<open>
  C8. \<open>DecideComputeClass\<close> is total and deterministic. The model is a function with no
  failure outcome; for every input with \<open>mCPU \<ge> 250\<close> the divisor \<open>float64(mCPU)\<close> is
  a non-zero number, so the ratio is not NaN, the result is exactly one of the four
  classes, and it is the same for the same usage and flag (the name of the workload only
  goes into the log).
\<close>

theorem DecideComputeClass_total:
  assumes "250 \<le>s mCPU"
  shows "(\<exists>m e. float64_of_int64 mCPU = Fin m e \<and> m \<noteq> 0)
       \<and> ratio_of mCPU memory \<noteq> NaN
       \<and> (\<exists>!c. fst (DecideComputeClass w mCPU memory arm64) = c)
       \<and> fst (DecideComputeClass w mCPU memory arm64) \<in>
           {COMPUTE_CLASS_REGULAR, COMPUTE_CLASS_BALANCED, COMPUTE_CLASS_SCALEOUT,
            COMPUTE_CLASS_SCALEOUT_ARM}
       \<and> fst (DecideComputeClass w' mCPU memory arm64) =
           fst (DecideComputeClass w mCPU memory arm64)"
proof -
  have "250 \<le> sint mCPU"
    using assms by (simp add: word_sle_eq)
  then have nz: "sint mCPU \<noteq> 0"
    by simp
  have divisor: "\<exists>m e. float64_of_int64 mCPU = Fin m e \<and> m \<noteq> 0"
    using float64_of_int64_shape [of mCPU] nz by blast
  have ratio: "ratio_of mCPU memory \<noteq> NaN"
    using nz by (rule ratio_of_not_NaN)
  have one: "\<exists>!c. fst (DecideComputeClass w mCPU memory arm64) = c"
    by simp
  have closed: "fst (DecideComputeClass w mCPU memory arm64) \<in>
      {COMPUTE_CLASS_REGULAR, COMPUTE_CLASS_BALANCED, COMPUTE_CLASS_SCALEOUT,
       COMPUTE_CLASS_SCALEOUT_ARM}"
    by (cases "fst (DecideComputeClass w mCPU memory arm64)") simp_all
  have name: "fst (DecideComputeClass w' mCPU memory arm64) =
      fst (DecideComputeClass w mCPU memory arm64)"
    by (auto simp: DecideComputeClass_def Let_def)
  from divisor ratio one closed name show ?thesis
    by (intro conjI)
qed

theorem DecideComputeClass_total_witness:
  "250 \<le>s (10000 :: int64)
   \<and> ratio_of 10000 10000 \<noteq> NaN
   \<and> fst (DecideComputeClass ''test-pod'' 10000 10000 False) = COMPUTE_CLASS_REGULAR"
proof -
  have h: "250 \<le>s (10000 :: int64)"
    by simp
  have "ratio_of 10000 10000 \<noteq> NaN"
    using DecideComputeClass_total [OF h, of 10000 "''test-pod''" False] by blast
  moreover have "fst (DecideComputeClass ''test-pod'' 10000 10000 False) = COMPUTE_CLASS_REGULAR"
    by code_simp
  ultimately show ?thesis
    using h by (intro conjI)
qed


section \<open>The price of a workload\<close>


text \<open>
  For a spot workload of class Balanced, \<open>CalculatePricing\<close> reads \<open>spot_cpu_price\<close> and
  \<open>spot_memory_price\<close>, the pair of the class Regular: for every input the spot price of
  a Balanced workload is the spot price of a Regular one. The fields
  \<open>spot_cpu_balanced_price\<close> and \<open>spot_memory_balanced_price\<close> are read nowhere.
\<close>

lemma CalculatePricing_spot_balanced_is_regular:
  "CalculatePricing cpu_m memory_m storage_m pricing COMPUTE_CLASS_BALANCED True =
   CalculatePricing cpu_m memory_m storage_m pricing COMPUTE_CLASS_REGULAR True"
  by (simp add: CalculatePricing_def)

text \<open>
  C1. The claim is that a spot workload is priced with the pair of its class and, in
  particular, a spot workload of class Balanced with the spot Balanced pair. At the price
  table of \<open>TestCalculatePricing\<close> and the usage (25000, 100000, 10000) the code
  returns 0.620966, which is 0.0172 * 25 + 0.0019026 * 100 + 0.0000706 * 10 from the
  Regular spot pair, where the spot Balanced pair gives 0.0249 * 25 + 0.002758 * 100
  + 0.0000706 * 10 = 0.899006.
\<close>

theorem CalculatePricing_spot_balanced_at_test_prices:
  "almostEqual (fst (CalculatePricing 25000 100000 10000 test_pricing COMPUTE_CLASS_BALANCED True))
      (f_dec 620966 1000000)
   \<and> almostEqual
        (f_add (f_add (per_thousand (spot_cpu_balanced_price test_pricing) 25000)
                      (per_thousand (spot_memory_balanced_price test_pricing) 100000))
               (per_thousand (storage_price test_pricing) 10000))
        (f_dec 899006 1000000)
   \<and> f_lt (fst (CalculatePricing 25000 100000 10000 test_pricing COMPUTE_CLASS_BALANCED True))
        (f_dec 7 10)"
  by code_simp

text \<open>
  C10. A degradation is logged and is not a failure. When one of the two ARM prices that
  the class ScaleOutArm uses (the spot pair or the on-demand pair, by the flag) is zero,
  \<open>CalculatePricing\<close> still returns the cost of the formula, with the one warning that
  ARM pricing is not available in the region; when both are zero and the storage price
  too, that cost is zero. When no rule of the classifier matches, it returns Regular with
  the one warning that no class matched.
\<close>

theorem degradation_is_not_failure:
  "(f_eq (spot_arm_cpu_scaleout_price p) (f_int 0)
      \<or> f_eq (spot_arm_memory_scaleout_price p) (f_int 0) \<longrightarrow>
      CalculatePricing cpu_m memory_m storage_m p COMPUTE_CLASS_SCALEOUT_ARM True =
        (f_add (f_add (per_thousand (spot_arm_cpu_scaleout_price p) cpu_m)
                      (per_thousand (spot_arm_memory_scaleout_price p) memory_m))
               (per_thousand (storage_price p) storage_m),
         [ArmPricingUnavailable (region p)]))
   \<and> (f_eq (cpu_arm_scaleout_price p) (f_int 0)
      \<or> f_eq (memory_arm_scaleout_price p) (f_int 0) \<longrightarrow>
      CalculatePricing cpu_m memory_m storage_m p COMPUTE_CLASS_SCALEOUT_ARM False =
        (f_add (f_add (per_thousand (cpu_arm_scaleout_price p) cpu_m)
                      (per_thousand (memory_arm_scaleout_price p) memory_m))
               (per_thousand (storage_price p) storage_m),
         [ArmPricingUnavailable (region p)]))
   \<and> (spot_arm_cpu_scaleout_price p = Fin 0 0 \<and> spot_arm_memory_scaleout_price p = Fin 0 0
      \<and> storage_price p = Fin 0 0 \<longrightarrow>
      CalculatePricing cpu_m memory_m storage_m p COMPUTE_CLASS_SCALEOUT_ARM True =
        (Fin 0 0, [ArmPricingUnavailable (region p)]))
   \<and> (cpu_arm_scaleout_price p = Fin 0 0 \<and> memory_arm_scaleout_price p = Fin 0 0
      \<and> storage_price p = Fin 0 0 \<longrightarrow>
      CalculatePricing cpu_m memory_m storage_m p COMPUTE_CLASS_SCALEOUT_ARM False =
        (Fin 0 0, [ArmPricingUnavailable (region p)]))
   \<and> (let ratio = ratio_of mCPU memory in
      \<not> arm64
      \<and> \<not> (f_le (f_int 1) ratio \<and> f_le ratio (f_dec 65 10)
            \<and> mCPU \<le>s 30000 \<and> memory \<le>s 110000)
      \<and> \<not> (f_eq ratio (f_int 4) \<and> mCPU \<le>s 54000 \<and> memory \<le>s 216000)
      \<and> \<not> (f_le (f_int 1) ratio \<and> f_le ratio (f_int 8)
            \<and> (30000 <s mCPU \<or> 110000 <s memory)) \<longrightarrow>
      DecideComputeClass w mCPU memory arm64 =
        (COMPUTE_CLASS_REGULAR, [NoMatchingClass w]))"
  unfolding Let_def
  by (intro conjI impI)
     (simp_all add: CalculatePricing_def DecideComputeClass_def Let_def f_int_0
          per_thousand_zero diff_sign_def rnd_zero)

theorem degradation_is_not_failure_witness:
  "f_eq (spot_arm_cpu_scaleout_price (zero_pricing ''europe-west1'')) (f_int 0)
   \<and> CalculatePricing 250 500 10 (zero_pricing ''europe-west1'') COMPUTE_CLASS_SCALEOUT_ARM True =
       (Fin 0 0, [ArmPricingUnavailable ''europe-west1''])
   \<and> CalculatePricing 250 500 10 (zero_pricing ''europe-west1'') COMPUTE_CLASS_SCALEOUT_ARM False =
       (Fin 0 0, [ArmPricingUnavailable ''europe-west1''])
   \<and> DecideComputeClass ''pod'' 250 5000 False = (COMPUTE_CLASS_REGULAR, [NoMatchingClass ''pod''])"
proof -
  have z: "f_eq (spot_arm_cpu_scaleout_price (zero_pricing ''europe-west1'')) (f_int 0)"
    by code_simp
  have zs: "spot_arm_cpu_scaleout_price (zero_pricing ''europe-west1'') = Fin 0 0
      \<and> spot_arm_memory_scaleout_price (zero_pricing ''europe-west1'') = Fin 0 0
      \<and> storage_price (zero_pricing ''europe-west1'') = Fin 0 0"
    by (simp add: zero_pricing_def f_int_0)
  have zo: "cpu_arm_scaleout_price (zero_pricing ''europe-west1'') = Fin 0 0
      \<and> memory_arm_scaleout_price (zero_pricing ''europe-west1'') = Fin 0 0
      \<and> storage_price (zero_pricing ''europe-west1'') = Fin 0 0"
    by (simp add: zero_pricing_def f_int_0)
  have r: "region (zero_pricing ''europe-west1'') = ''europe-west1''"
    by (simp add: zero_pricing_def)
  have n1: "\<not> (f_le (f_int 1) (ratio_of 250 5000) \<and> f_le (ratio_of 250 5000) (f_dec 65 10)
               \<and> (250 :: int64) \<le>s 30000 \<and> (5000 :: int64) \<le>s 110000)"
    by code_simp
  have n2: "\<not> (f_eq (ratio_of 250 5000) (f_int 4) \<and> (250 :: int64) \<le>s 54000
               \<and> (5000 :: int64) \<le>s 216000)"
    by code_simp
  have n3: "\<not> (f_le (f_int 1) (ratio_of 250 5000) \<and> f_le (ratio_of 250 5000) (f_int 8)
               \<and> ((30000 :: int64) <s 250 \<or> (110000 :: int64) <s 5000))"
    by code_simp
  note t = degradation_is_not_failure
    [of "zero_pricing ''europe-west1''" 250 500 10 250 5000 False "''pod''", unfolded Let_def r]
  from t zs have a: "CalculatePricing 250 500 10 (zero_pricing ''europe-west1'')
      COMPUTE_CLASS_SCALEOUT_ARM True = (Fin 0 0, [ArmPricingUnavailable ''europe-west1''])"
    by blast
  from t zo have b: "CalculatePricing 250 500 10 (zero_pricing ''europe-west1'')
      COMPUTE_CLASS_SCALEOUT_ARM False = (Fin 0 0, [ArmPricingUnavailable ''europe-west1''])"
    by blast
  from t n1 n2 n3 have c: "DecideComputeClass ''pod'' 250 5000 False =
      (COMPUTE_CLASS_REGULAR, [NoMatchingClass ''pod''])"
    by blast
  from z a b c show ?thesis
    by (intro conjI)
qed

section \<open>The price catalogue\<close>

lemma assign_price_spot_arm:
  "spot_arm_cpu_scaleout_price (assign_price reg d price p) = spot_arm_cpu_scaleout_price p"
  "spot_arm_memory_scaleout_price (assign_price reg d price p) = spot_arm_memory_scaleout_price p"
  by (simp_all add: assign_price_def)

lemma assign_price_arm_spot_descriptions:
  "assign_price reg (''Autopilot Scale-Out Arm Spot Pod Memory Requests ('' @ reg @ '')'') price p =
     p\<lparr>memory_arm_scaleout_price := price\<rparr>"
  "assign_price reg (''Autopilot Scale-Out Arm Spot Pod mCPU Requests ('' @ reg @ '')'') price p =
     p\<lparr>cpu_arm_scaleout_price := price\<rparr>"
  by (simp_all add: assign_price_def)

lemma price_skus_spot_arm:
  "price_skus reg skus p = Some p' \<Longrightarrow>
     spot_arm_cpu_scaleout_price p' = spot_arm_cpu_scaleout_price p
     \<and> spot_arm_memory_scaleout_price p' = spot_arm_memory_scaleout_price p"
proof (induction skus arbitrary: p)
  case Nil
  then show ?case by simp
next
  case (Cons s skus)
  show ?case
  proof (cases "reg \<in> set (ServiceRegions s)")
    case False
    with Cons.prems have "price_skus reg skus p = Some p'" by simp
    then show ?thesis by (rule Cons.IH)
  next
    case True
    with Cons.prems obtain expr unit where
      "price_skus reg skus (assign_price reg (Description s) (sku_price expr unit) p) = Some p'"
      by (auto split: option.splits)
    from Cons.IH [OF this] show ?thesis
      by (simp add: assign_price_spot_arm)
  qed
qed

text \<open>
  C5. Whatever the catalogue holds, the pricing record that \<open>GetAutopilotPricing\<close> returns
  (with or without an error) has both spot ARM prices zero. The two descriptions
  "Autopilot Scale-Out Arm Spot Pod Memory Requests" and "... mCPU Requests" stand twice
  in the \<open>switch\<close>: the first occurrences are taken and assign the on-demand ARM fields,
  so the later ones, which would assign the spot ARM fields, are never reached, and no
  description at all changes a spot ARM field.
\<close>

theorem GetAutopilotPricing_spot_arm_zero:
  "(GetAutopilotPricing service reg = Some (pricing, err) \<longrightarrow>
      spot_arm_cpu_scaleout_price pricing = f_int 0
      \<and> spot_arm_memory_scaleout_price pricing = f_int 0)
   \<and> assign_price reg (''Autopilot Scale-Out Arm Spot Pod Memory Requests ('' @ reg @ '')'') price p =
       p\<lparr>memory_arm_scaleout_price := price\<rparr>
   \<and> assign_price reg (''Autopilot Scale-Out Arm Spot Pod mCPU Requests ('' @ reg @ '')'') price p =
       p\<lparr>cpu_arm_scaleout_price := price\<rparr>
   \<and> spot_arm_cpu_scaleout_price (assign_price reg d price p) = spot_arm_cpu_scaleout_price p
   \<and> spot_arm_memory_scaleout_price (assign_price reg d price p) =
       spot_arm_memory_scaleout_price p"
proof -
  have "spot_arm_cpu_scaleout_price pricing = f_int 0
      \<and> spot_arm_memory_scaleout_price pricing = f_int 0"
    if "GetAutopilotPricing service reg = Some (pricing, err)"
  proof (cases "NewService_error service")
    case (Some e)
    with that have "pricing = zero_pricing []"
      by (simp add: GetAutopilotPricing_def)
    then show ?thesis by (simp add: zero_pricing_def)
  next
    case None
    show ?thesis
    proof (cases "Skus_List service")
      case (Inl e)
      with None that have "pricing = zero_pricing []"
        by (simp add: GetAutopilotPricing_def)
      then show ?thesis by (simp add: zero_pricing_def)
    next
      case (Inr skus)
      with None that have "price_skus reg skus (zero_pricing reg) = Some pricing"
        by (simp add: GetAutopilotPricing_def split: option.splits)
      from price_skus_spot_arm [OF this] show ?thesis
        by (simp add: zero_pricing_def)
    qed
  qed
  then show ?thesis
    using assign_price_spot_arm [of reg d price p]
      assign_price_arm_spot_descriptions [of reg price p]
    by blast
qed

theorem GetAutopilotPricing_spot_arm_zero_witness:
  "GetAutopilotPricing example_service ''us-central1'' =
     Some ((zero_pricing ''us-central1'')\<lparr>cpu_arm_scaleout_price := f_dec 28 1000\<rparr>, None)
   \<and> spot_arm_cpu_scaleout_price
        ((zero_pricing ''us-central1'')\<lparr>cpu_arm_scaleout_price := f_dec 28 1000\<rparr>) = f_int 0
   \<and> spot_arm_memory_scaleout_price
        ((zero_pricing ''us-central1'')\<lparr>cpu_arm_scaleout_price := f_dec 28 1000\<rparr>) = f_int 0"
proof -
  have run: "GetAutopilotPricing example_service ''us-central1'' =
     Some ((zero_pricing ''us-central1'')\<lparr>cpu_arm_scaleout_price := f_dec 28 1000\<rparr>, None)"
    by code_simp
  from GetAutopilotPricing_spot_arm_zero
    [of example_service "''us-central1''"
        "(zero_pricing ''us-central1'')\<lparr>cpu_arm_scaleout_price := f_dec 28 1000\<rparr>" None]
    run
  show ?thesis by blast
qed


section \<open>The totals of the cluster\<close>

text \<open>
  The three figures of the table, for every list of nodes: the row "Total cost per
  cluster per hour" is the accumulator \<open>total_cost\<close> alone, which starts from the cluster
  fee and receives the costs of the workloads on nodes that are not spot; the two
  commitment rows are \<open>total_cost_spot + total_cost * 0.8\<close> and
  \<open>total_cost_spot + total_cost * 0.55\<close>.
\<close>

lemma DisplayWorkloadTable_figures:
  "TotalCostPerHour (DisplayWorkloadTable nodes) = fst (cluster_totals nodes)"
  "OneYearCommit (DisplayWorkloadTable nodes) =
     f_add (fst (snd (cluster_totals nodes)))
           (f_mul (fst (cluster_totals nodes)) ONE_YEAR_DISCOUNT)"
  "ThreeYearCommit (DisplayWorkloadTable nodes) =
     f_add (fst (snd (cluster_totals nodes)))
           (f_mul (fst (cluster_totals nodes)) THREE_YEAR_DISCOUNT)"
  by (simp_all add: DisplayWorkloadTable_def split: prod.splits)

text \<open>
  C2. The claim is that the reported total is the non-spot total plus the spot total. On
  the cluster of one spot node with one workload of cost 1 the accumulators are 0.1 (the
  fee) and 1, and their sum is 1.1; the table reports 0.1 as the total, and 1.08 and 1.055
  for the one-year and three-year commitments, both above the total.
\<close>

theorem DisplayWorkloadTable_total_omits_spot:
  "fst (cluster_totals spot_cluster) = f_dec 1 10
   \<and> fst (snd (cluster_totals spot_cluster)) = f_int 1
   \<and> TotalCostPerHour (DisplayWorkloadTable spot_cluster) = f_dec 1 10
   \<and> f_add (fst (cluster_totals spot_cluster)) (fst (snd (cluster_totals spot_cluster))) =
       f_dec 11 10
   \<and> almostEqual (OneYearCommit (DisplayWorkloadTable spot_cluster)) (f_dec 108 100)
   \<and> almostEqual (ThreeYearCommit (DisplayWorkloadTable spot_cluster)) (f_dec 1055 1000)
   \<and> f_lt (TotalCostPerHour (DisplayWorkloadTable spot_cluster))
        (ThreeYearCommit (DisplayWorkloadTable spot_cluster))"
  by code_simp

text \<open>
  C3. The claim is the law \<open>total_1yr - spotTotal = 0.8 * (total - spotTotal)\<close> and
  \<open>total_3yr - spotTotal = 0.55 * (total - spotTotal)\<close> on the reported figures. On the
  same cluster the left sides are 0.08 and 0.055 and the right sides are - 0.72 and
  - 0.495, since the reported total leaves the spot total out.
\<close>

theorem commitment_law_fails_with_spot:
  "almostEqual
     (f_sub (OneYearCommit (DisplayWorkloadTable spot_cluster))
            (fst (snd (cluster_totals spot_cluster))))
     (f_dec 8 100)
   \<and> almostEqual
       (f_mul ONE_YEAR_DISCOUNT
          (f_sub (TotalCostPerHour (DisplayWorkloadTable spot_cluster))
                 (fst (snd (cluster_totals spot_cluster)))))
       (f_dec (- 72) 100)
   \<and> almostEqual
       (f_sub (ThreeYearCommit (DisplayWorkloadTable spot_cluster))
              (fst (snd (cluster_totals spot_cluster))))
       (f_dec 55 1000)
   \<and> almostEqual
       (f_mul THREE_YEAR_DISCOUNT
          (f_sub (TotalCostPerHour (DisplayWorkloadTable spot_cluster))
                 (fst (snd (cluster_totals spot_cluster)))))
       (f_dec (- 495) 1000)"
  by code_simp


section \<open>The running total of a node\<close>











end
